theory Spec2Isabelle
  imports Complex_Main "HOL-Library.Log_Nat"
begin

section \<open>The pytromino model of \<^verbatim>\<open>models.py\<close>\<close>

text \<open>
  A shallow embedding of the classes \<^verbatim>\<open>Pytromino\<close> and \<^verbatim>\<open>Holder\<close> and of the function
  \<^verbatim>\<open>pytromino_factory\<close>.

  \<^item> A coordinate is a Python 2-tuple of numbers. The methods use \<^verbatim>\<open>+\<close> and \<^verbatim>\<open>-\<close> of
    whatever numbers they are given, so the model is polymorphic in the type \<open>'n\<close> of numbers
    and uses the \<open>+\<close> and \<open>-\<close> of that type. Two instances matter: \<open>pynum\<close>, the integers and
    binary64 floats of Python with their arithmetic (the factory builds pieces of this
    type), and \<open>rat\<close>, exact arithmetic.
  \<^item> An object is a record; a method takes the record as its argument \<open>self\<close> and returns the
    record after the call (together with the returned value where there is one).
  \<^item> A transform function and a validator are pure total functions on coordinates.
  \<^item> A raised exception is a value of the type \<open>error\<close>.
\<close>

subsection \<open>Data\<close>

datatype types = Types_I | Types_O | Types_L | Types_S | Types_T | Types_J | Types_Z

text \<open>
  The module \<^verbatim>\<open>colors\<close> is imported by \<^verbatim>\<open>models.py\<close> but is not part of the sources: the
  members of its enumeration \<^verbatim>\<open>Color\<close> that the factory names are a datatype, and the map
  from a member to its \<^verbatim>\<open>.value\<close> (an RGB tuple) is a parameter \<open>palette\<close> of the factory.
\<close>

datatype color_name = CYAN | YELLOW | ORANGE | GREEN | PURPLE | BLUE | RED

type_synonym rgb = "int \<times> int \<times> int"

type_synonym 'n pos = "'n \<times> 'n"

datatype error = ValueError string | AssertionError string

text \<open>
  What a caller may hand to the factory as \<^verbatim>\<open>pytromino_type\<close>: a member of
  \<^verbatim>\<open>Pytromino.Types\<close>, or any other value, of which the model keeps the text that
  \<^verbatim>\<open>str\<close> gives (it is all the factory uses of it).
\<close>

datatype py_tag = Member types | NonMember string

record 'n pytromino =
  blocks_pos :: "'n pos list"
  color :: rgb
  type :: types
  center_rot :: "'n pos"
  placed :: bool

record 'a holder =
  item :: "'a option"
  can_store :: bool

subsection \<open>Class \<^verbatim>\<open>Pytromino\<close>\<close>

text \<open>
  \<^verbatim>\<open>__init__\<close>: the first assertion fails for a type that is no member of the
  enumeration; the second one (\<^verbatim>\<open>type(color) == tuple\<close>) holds by the type \<open>rgb\<close>.
\<close>

definition Pytromino_init ::
  "'n pos list \<Rightarrow> rgb \<Rightarrow> py_tag \<Rightarrow> 'n pos \<Rightarrow> error + 'n pytromino" where
  "Pytromino_init block_rel_pos col pytromino_type center =
     (case pytromino_type of
        NonMember s \<Rightarrow> Inl (AssertionError [])
      | Member t \<Rightarrow>
          Inr \<lparr>blocks_pos = block_rel_pos, color = col, type = t,
               center_rot = center, placed = False\<rparr>)"

definition rotate_block_90_cw :: "('n::{plus,minus}) pytromino \<Rightarrow> 'n pos \<Rightarrow> 'n pos" where
  "rotate_block_90_cw self pos =
     (snd (center_rot self) - snd pos + fst (center_rot self),
      fst pos - fst (center_rot self) + snd (center_rot self))"

definition filter_blocks_pos :: "('n pos \<Rightarrow> bool) \<Rightarrow> 'n pytromino \<Rightarrow> 'n pos list" where
  "filter_blocks_pos fn self = [coord \<leftarrow> blocks_pos self. fn coord]"

definition shift_down_fn :: "('n::plus) \<Rightarrow> 'n pos \<Rightarrow> 'n pos" where
  "shift_down_fn steps = (\<lambda>pos. (fst pos, snd pos + steps))"

definition shift_left_fn :: "('n::minus) \<Rightarrow> 'n pos \<Rightarrow> 'n pos" where
  "shift_left_fn steps = (\<lambda>pos. (fst pos - steps, snd pos))"

definition shift_right_fn :: "('n::plus) \<Rightarrow> 'n pos \<Rightarrow> 'n pos" where
  "shift_right_fn steps = (\<lambda>pos. (fst pos + steps, snd pos))"

text \<open>
  The loop of \<^verbatim>\<open>validated_apply\<close> over the blocks that are left, with the list
  \<^verbatim>\<open>final_pos\<close> built so far; \<open>None\<close> is the early \<^verbatim>\<open>return False\<close>.
\<close>

fun validated_loop ::
  "('n pos \<Rightarrow> 'n pos) \<Rightarrow> ('n pos \<Rightarrow> bool) \<Rightarrow> 'n pos list \<Rightarrow> 'n pos list \<Rightarrow> 'n pos list option"
  where
  "validated_loop fn validator [] final_pos = Some final_pos"
| "validated_loop fn validator (coord # rest) final_pos =
     (let pos = fn coord in
      if validator pos then validated_loop fn validator rest (final_pos @ [pos])
      else None)"

definition validated_apply ::
  "('n pos \<Rightarrow> 'n pos) \<Rightarrow> bool \<Rightarrow> ('n pos \<Rightarrow> bool) \<Rightarrow> 'n pytromino \<Rightarrow> bool \<times> 'n pytromino"
  where
  "validated_apply fn is_rotation validator self =
     (case validated_loop fn validator (blocks_pos self) [] of
        None \<Rightarrow> (False, self)
      | Some final_pos \<Rightarrow>
          (let self1 = (if \<not> is_rotation
                        then self\<lparr>center_rot := fn (center_rot self)\<rparr> else self)
           in (True, self1\<lparr>blocks_pos := final_pos\<rparr>)))"

text \<open>The validator that is always true: the default of \<^verbatim>\<open>validated_apply\<close>.\<close>

definition always_true :: "'n pos \<Rightarrow> bool" where
  "always_true pos = True"

definition get_unique_rows :: "'n pytromino \<Rightarrow> 'n set" where
  "get_unique_rows self = snd ` set (blocks_pos self)"

definition place_at :: "('n::plus) pos \<Rightarrow> 'n pytromino \<Rightarrow> 'n pytromino" where
  "place_at coordinate self =
     (if \<not> placed self
      then (snd (validated_apply
                   (\<lambda>pos. (fst pos + fst coordinate, snd pos + snd coordinate))
                   False (\<lambda>pos. True) self))\<lparr>placed := True\<rparr>
      else self)"

definition is_placed :: "'n pytromino \<Rightarrow> bool" where
  "is_placed self = placed self"

definition get_blocks_pos :: "'n pytromino \<Rightarrow> 'n pos list" where
  "get_blocks_pos self = blocks_pos self"

definition get_color :: "'n pytromino \<Rightarrow> rgb" where
  "get_color self = color self"

definition get_type :: "'n pytromino \<Rightarrow> types" where
  "get_type self = type self"

subsection \<open>The numbers of Python\<close>

text \<open>
  A Python \<^verbatim>\<open>float\<close> is an IEEE 754 binary64 value: a finite value (a rational, with
  \<open>Finite 0\<close> for \<open>+0.0\<close>), the negative zero, an infinity or a NaN. The finite values of
  binary64 are the rationals \<open>q\<close> with \<open>is_binary64 q\<close>.
\<close>

datatype float64 = Finite rat | NegZero | PosInf | NegInf | NaN

text \<open>For \<open>0 < q\<close>, the integer \<open>e\<close> with \<open>2\<^sup>e \<le> q < 2\<^sup>e\<^sup>+\<^sup>1\<close>.\<close>

definition floor_log2 :: "rat \<Rightarrow> int" where
  "floor_log2 q =
     (if 1 \<le> q then bitlen \<lfloor>q\<rfloor> - 1 else - bitlen (\<lceil>1 / q\<rceil> - 1))"

text \<open>
  The exponent of the unit in the last place of \<open>q \<noteq> 0\<close>: 53 bits of precision, and no
  finer than \<open>2\<^sup>-\<^sup>1\<^sup>0\<^sup>7\<^sup>4\<close> (the subnormal numbers).
\<close>

definition ulp_exponent :: "rat \<Rightarrow> int" where
  "ulp_exponent q = max (floor_log2 \<bar>q\<bar> - 52) (- 1074)"

definition is_binary64 :: "rat \<Rightarrow> bool" where
  "is_binary64 q \<longleftrightarrow>
     q = 0 \<or>
     (\<bar>q\<bar> < 2 ^ 1024 \<and>
      of_int \<lfloor>q / 2 powi ulp_exponent q\<rfloor> = q / 2 powi ulp_exponent q)"

text \<open>Rounding to the nearest integer, a tie to the even one.\<close>

definition round_half_even :: "rat \<Rightarrow> int" where
  "round_half_even x =
     (let f = \<lfloor>x\<rfloor>; d = x - of_int f in
      if d < 1/2 then f else if 1/2 < d then f + 1 else if even f then f else f + 1)"

text \<open>
  Rounding to the nearest multiple of the unit in the last place, ties to even, with the
  exponent not yet bounded from above.
\<close>

definition round64 :: "rat \<Rightarrow> rat" where
  "round64 q =
     (if q = 0 then 0
      else of_int (round_half_even (q / 2 powi ulp_exponent q)) * 2 powi ulp_exponent q)"

text \<open>
  The binary64 value of an exact result \<open>q\<close> in the default rounding mode: a rounded
  magnitude of \<open>2\<^sup>1\<^sup>0\<^sup>2\<^sup>4\<close> or more overflows to an infinity, and a negative result that
  rounds to zero is the negative zero.
\<close>

definition to_float64 :: "rat \<Rightarrow> float64" where
  "to_float64 q =
     (let r = round64 q in
      if 2 ^ 1024 \<le> r then PosInf
      else if r \<le> - (2 ^ 1024) then NegInf
      else if r = 0 \<and> q < 0 then NegZero
      else Finite r)"

fun float_neg :: "float64 \<Rightarrow> float64" where
  "float_neg (Finite q) = (if q = 0 then NegZero else Finite (- q))"
| "float_neg NegZero = Finite 0"
| "float_neg PosInf = NegInf"
| "float_neg NegInf = PosInf"
| "float_neg NaN = NaN"

fun float_add :: "float64 \<Rightarrow> float64 \<Rightarrow> float64" where
  "float_add NaN y = NaN"
| "float_add x NaN = NaN"
| "float_add PosInf NegInf = NaN"
| "float_add NegInf PosInf = NaN"
| "float_add PosInf y = PosInf"
| "float_add x PosInf = PosInf"
| "float_add NegInf y = NegInf"
| "float_add x NegInf = NegInf"
| "float_add NegZero y = y"
| "float_add x NegZero = x"
| "float_add (Finite p) (Finite q) = to_float64 (p + q)"

definition float_sub :: "float64 \<Rightarrow> float64 \<Rightarrow> float64" where
  "float_sub x y = float_add x (float_neg y)"

text \<open>
  The conversion of an \<^verbatim>\<open>int\<close> to a \<^verbatim>\<open>float\<close>, correctly rounded; \<open>None\<close> is the
  \<^verbatim>\<open>OverflowError\<close> of an integer that is too large.
\<close>

definition float_of_int :: "int \<Rightarrow> float64 option" where
  "float_of_int a =
     (case to_float64 (of_int a) of
        PosInf \<Rightarrow> None
      | NegInf \<Rightarrow> None
      | x \<Rightarrow> Some x)"

text \<open>
  A Python number is an \<^verbatim>\<open>int\<close> (unbounded) or a \<^verbatim>\<open>float\<close>. An operation on two
  integers is exact; with a float operand, an integer operand is converted to a float
  first. A transform function of the model is total, so the \<^verbatim>\<open>OverflowError\<close> of that
  conversion is a third kind of result, which every further operation hands on.
\<close>

datatype pynum = PyInt int | PyFloat float64 | Raised_OverflowError

fun py_arith ::
  "(int \<Rightarrow> int \<Rightarrow> int) \<Rightarrow> (float64 \<Rightarrow> float64 \<Rightarrow> float64) \<Rightarrow> pynum \<Rightarrow> pynum \<Rightarrow> pynum" where
  "py_arith int_op float_op (PyInt a) (PyInt b) = PyInt (int_op a b)"
| "py_arith int_op float_op (PyInt a) (PyFloat y) =
     (case float_of_int a of
        None \<Rightarrow> Raised_OverflowError
      | Some x \<Rightarrow> PyFloat (float_op x y))"
| "py_arith int_op float_op (PyFloat x) (PyInt b) =
     (case float_of_int b of
        None \<Rightarrow> Raised_OverflowError
      | Some y \<Rightarrow> PyFloat (float_op x y))"
| "py_arith int_op float_op (PyFloat x) (PyFloat y) = PyFloat (float_op x y)"
| "py_arith int_op float_op x y = Raised_OverflowError"

instantiation pynum :: "{plus, minus}"
begin

definition plus_pynum :: "pynum \<Rightarrow> pynum \<Rightarrow> pynum" where
  "plus_pynum x y = py_arith (+) float_add x y"

definition minus_pynum :: "pynum \<Rightarrow> pynum \<Rightarrow> pynum" where
  "minus_pynum x y = py_arith (-) float_sub x y"

instance ..

end

text \<open>
  Python's \<^verbatim>\<open>x > 0\<close>, the test of the docstring's validator \<^verbatim>\<open>positive_x\<close>.
\<close>

fun py_positive :: "pynum \<Rightarrow> bool" where
  "py_positive (PyInt a) = (0 < a)"
| "py_positive (PyFloat (Finite q)) = (0 < q)"
| "py_positive (PyFloat PosInf) = True"
| "py_positive x = False"

subsection \<open>The factory\<close>

text \<open>The text that \<^verbatim>\<open>str\<close> gives for the argument, as the error message shows it.\<close>

fun str_tag :: "py_tag \<Rightarrow> string" where
  "str_tag (Member Types_I) = ''Types.I''"
| "str_tag (Member Types_O) = ''Types.O''"
| "str_tag (Member Types_L) = ''Types.L''"
| "str_tag (Member Types_S) = ''Types.S''"
| "str_tag (Member Types_T) = ''Types.T''"
| "str_tag (Member Types_J) = ''Types.J''"
| "str_tag (Member Types_Z) = ''Types.Z''"
| "str_tag (NonMember s) = s"

text \<open>
  The integer literals of the source are \<open>PyInt\<close>, the literals \<^verbatim>\<open>0.5\<close> and \<^verbatim>\<open>-0.5\<close> are
  floats.
\<close>

definition pytromino_factory ::
  "(color_name \<Rightarrow> rgb) \<Rightarrow> py_tag \<Rightarrow> error + pynum pytromino" where
  "pytromino_factory palette pytromino_type =
     (if pytromino_type = Member Types_I then
        Pytromino_init [(PyInt 0, PyInt 0), (PyInt (- 1), PyInt 0), (PyInt 1, PyInt 0), (PyInt 2, PyInt 0)]
          (palette CYAN) pytromino_type (PyFloat (Finite (1/2)), PyFloat (Finite (1/2)))
      else if pytromino_type = Member Types_O then
        Pytromino_init [(PyInt 0, PyInt 0), (PyInt 0, PyInt (- 1)), (PyInt 1, PyInt (- 1)), (PyInt 1, PyInt 0)]
          (palette YELLOW) pytromino_type (PyFloat (Finite (1/2)), PyFloat (Finite (- 1/2)))
      else if pytromino_type = Member Types_L then
        Pytromino_init [(PyInt 0, PyInt 0), (PyInt (- 1), PyInt 0), (PyInt 1, PyInt 0), (PyInt 1, PyInt (- 1))]
          (palette ORANGE) pytromino_type (PyInt 0, PyInt 0)
      else if pytromino_type = Member Types_S then
        Pytromino_init [(PyInt 0, PyInt 0), (PyInt (- 1), PyInt 0), (PyInt 0, PyInt (- 1)), (PyInt 1, PyInt (- 1))]
          (palette GREEN) pytromino_type (PyInt 0, PyInt 0)
      else if pytromino_type = Member Types_T then
        Pytromino_init [(PyInt 0, PyInt 0), (PyInt 0, PyInt (- 1)), (PyInt (- 1), PyInt 0), (PyInt 1, PyInt 0)]
          (palette PURPLE) pytromino_type (PyInt 0, PyInt 0)
      else if pytromino_type = Member Types_J then
        Pytromino_init [(PyInt 0, PyInt 0), (PyInt (- 1), PyInt (- 1)), (PyInt (- 1), PyInt 0), (PyInt 1, PyInt 0)]
          (palette BLUE) pytromino_type (PyInt 0, PyInt 0)
      else if pytromino_type = Member Types_Z then
        Pytromino_init [(PyInt 0, PyInt 0), (PyInt 0, PyInt (- 1)), (PyInt (- 1), PyInt (- 1)), (PyInt 1, PyInt 0)]
          (palette RED) pytromino_type (PyInt 0, PyInt 0)
      else
        Inl (ValueError (''Unknown block type: \"'' @ str_tag pytromino_type @ ''\"'')))"

subsection \<open>Class \<^verbatim>\<open>Holder\<close>\<close>

text \<open>
  The held item is any Python value; \<open>None\<close> is Python's \<^verbatim>\<open>None\<close>. A method that may
  raise returns the exception, if any, and the holder after the call: an exception leaves
  the object as the statements before the \<^verbatim>\<open>raise\<close> made it.
\<close>

definition Holder_init :: "'a holder" where
  "Holder_init = \<lparr>item = None, can_store = True\<rparr>"

definition store :: "'a option \<Rightarrow> 'a holder \<Rightarrow> error option \<times> 'a holder" where
  "store new_item self =
     (if can_store self then (None, self\<lparr>item := new_item\<rparr>)
      else (Some (AssertionError ''holder is closed''), self))"

definition open_holder :: "'a holder \<Rightarrow> 'a holder" where
  "open_holder self = self\<lparr>can_store := True\<rparr>"

definition close_holder :: "'a holder \<Rightarrow> 'a holder" where
  "close_holder self = self\<lparr>can_store := False\<rparr>"

definition get_item :: "'a holder \<Rightarrow> 'a option" where
  "get_item self = item self"

definition is_open :: "'a holder \<Rightarrow> bool" where
  "is_open self = can_store self"

subsection \<open>The canonical shape table of the specification\<close>

text \<open>
  The table of block offsets and rotation centers as the specification gives it, one row
  per shape, to be compared with what the factory builds. The specification's table has no
  color column; \<open>shape_color\<close> is the member of \<^verbatim>\<open>Color\<close> that the factory's branch for
  the shape names.
\<close>

fun canonical_offsets :: "types \<Rightarrow> pynum pos list" where
  "canonical_offsets Types_I =
     [(PyInt 0, PyInt 0), (PyInt (- 1), PyInt 0), (PyInt 1, PyInt 0), (PyInt 2, PyInt 0)]"
| "canonical_offsets Types_O =
     [(PyInt 0, PyInt 0), (PyInt 0, PyInt (- 1)), (PyInt 1, PyInt (- 1)), (PyInt 1, PyInt 0)]"
| "canonical_offsets Types_L =
     [(PyInt 0, PyInt 0), (PyInt (- 1), PyInt 0), (PyInt 1, PyInt 0), (PyInt 1, PyInt (- 1))]"
| "canonical_offsets Types_S =
     [(PyInt 0, PyInt 0), (PyInt (- 1), PyInt 0), (PyInt 0, PyInt (- 1)), (PyInt 1, PyInt (- 1))]"
| "canonical_offsets Types_T =
     [(PyInt 0, PyInt 0), (PyInt 0, PyInt (- 1)), (PyInt (- 1), PyInt 0), (PyInt 1, PyInt 0)]"
| "canonical_offsets Types_J =
     [(PyInt 0, PyInt 0), (PyInt (- 1), PyInt (- 1)), (PyInt (- 1), PyInt 0), (PyInt 1, PyInt 0)]"
| "canonical_offsets Types_Z =
     [(PyInt 0, PyInt 0), (PyInt 0, PyInt (- 1)), (PyInt (- 1), PyInt (- 1)), (PyInt 1, PyInt 0)]"

fun canonical_center :: "types \<Rightarrow> pynum pos" where
  "canonical_center Types_I = (PyFloat (Finite (1/2)), PyFloat (Finite (1/2)))"
| "canonical_center Types_O = (PyFloat (Finite (1/2)), PyFloat (Finite (- 1/2)))"
| "canonical_center t = (PyInt 0, PyInt 0)"

fun shape_color :: "types \<Rightarrow> color_name" where
  "shape_color Types_I = CYAN"
| "shape_color Types_O = YELLOW"
| "shape_color Types_L = ORANGE"
| "shape_color Types_S = GREEN"
| "shape_color Types_T = PURPLE"
| "shape_color Types_J = BLUE"
| "shape_color Types_Z = RED"

subsection \<open>Reachable pieces\<close>

text \<open>
  The pieces that the factory builds, and every state that calls of \<^verbatim>\<open>validated_apply\<close>
  (with any transform function, flag and validator) and of \<^verbatim>\<open>place_at\<close> lead to.
\<close>

inductive reachable :: "(color_name \<Rightarrow> rgb) \<Rightarrow> pynum pytromino \<Rightarrow> bool"
  for palette :: "color_name \<Rightarrow> rgb" where
  constructed: "pytromino_factory palette pytromino_type = Inr self \<Longrightarrow> reachable palette self"
| applied: "reachable palette self \<Longrightarrow>
     reachable palette (snd (validated_apply fn is_rotation validator self))"
| placed_at: "reachable palette self \<Longrightarrow> reachable palette (place_at coordinate self)"

subsection \<open>The pieces of the docstrings\<close>

text \<open>
  The pieces \<^verbatim>\<open>T\<close> and \<^verbatim>\<open>I\<close> that the docstrings of \<^verbatim>\<open>models.py\<close> construct, with the
  colors that their \<^verbatim>\<open>repr\<close> shows there.
\<close>

definition doctest_T :: "pynum pytromino" where
  "doctest_T =
     \<lparr>blocks_pos = [(PyInt 0, PyInt 0), (PyInt 0, PyInt (- 1)), (PyInt (- 1), PyInt 0), (PyInt 1, PyInt 0)],
      color = (146, 44, 140), type = Types_T, center_rot = (PyInt 0, PyInt 0),
      placed = False\<rparr>"

definition doctest_I :: "pynum pytromino" where
  "doctest_I =
     \<lparr>blocks_pos = [(PyInt 0, PyInt 0), (PyInt (- 1), PyInt 0), (PyInt 1, PyInt 0), (PyInt 2, PyInt 0)],
      color = (43, 172, 226), type = Types_I,
      center_rot = (PyFloat (Finite (1/2)), PyFloat (Finite (1/2))), placed = False\<rparr>"

subsection \<open>Coordinates that a shift does not round\<close>

text \<open>
  A shift by the integer \<open>n\<close> is exact on an integer coordinate. On a float coordinate it
  is exact when the coordinate, \<open>n\<close> and their sum are binary64 numbers: then neither the
  conversion of \<open>n\<close> nor the addition rounds.
\<close>

fun shift_exact :: "int \<Rightarrow> pynum \<Rightarrow> bool" where
  "shift_exact n (PyInt a) = True"
| "shift_exact n (PyFloat (Finite q)) =
     (is_binary64 q \<and> is_binary64 (of_int n) \<and> is_binary64 (q + of_int n))"
| "shift_exact n x = False"

section \<open>Properties\<close>

subsection \<open>Numbers that rounding leaves as they are\<close>

lemma round_half_even_of_int: "round_half_even (of_int m) = m"
  by (simp add: round_half_even_def)

lemma round64_binary64:
  assumes "is_binary64 q"
  shows "round64 q = q"
proof (cases "q = 0")
  case True
  then show ?thesis by (simp add: round64_def)
next
  case False
  define u :: rat where "u = 2 powi ulp_exponent q"
  have u: "u \<noteq> 0" by (simp add: u_def)
  from assms False have i: "of_int \<lfloor>q / u\<rfloor> = q / u"
    unfolding is_binary64_def u_def by blast
  have "round_half_even (q / u) = round_half_even (of_int \<lfloor>q / u\<rfloor>)"
    by (simp only: i)
  then have r: "round_half_even (q / u) = \<lfloor>q / u\<rfloor>"
    by (simp only: round_half_even_of_int)
  from False have "round64 q = of_int (round_half_even (q / u)) * u"
    by (simp add: round64_def u_def)
  also have "\<dots> = (q / u) * u" by (simp only: r i)
  also from u have "\<dots> = q" by simp
  finally show ?thesis .
qed

lemma binary64_bound: "is_binary64 q \<Longrightarrow> \<bar>q\<bar> < 2 ^ 1024"
  by (auto simp: is_binary64_def)

lemma to_float64_binary64: "is_binary64 q \<Longrightarrow> to_float64 q = Finite q"
  using binary64_bound [of q] by (auto simp: to_float64_def round64_binary64 Let_def)

lemma float_of_int_binary64:
  "is_binary64 (of_int n) \<Longrightarrow> float_of_int n = Some (Finite (of_int n))"
  by (simp add: float_of_int_def to_float64_binary64)

lemma float_sub_Finite:
  "float_sub (Finite p) (Finite r) = (if r = 0 then Finite p else to_float64 (p - r))"
  by (simp add: float_sub_def)

lemma float_round_trip:
  assumes "is_binary64 q" "is_binary64 (q + r)"
  shows "float_sub (to_float64 (q + r)) (Finite r) = Finite q"
proof -
  from assms(2) have "float_sub (to_float64 (q + r)) (Finite r) =
      (if r = 0 then Finite (q + r) else to_float64 (q + r - r))"
    by (simp only: to_float64_binary64 float_sub_Finite)
  with assms(1) show ?thesis by (simp add: to_float64_binary64)
qed

lemma shift_exact_round_trip: "shift_exact n x \<Longrightarrow> (x + PyInt n) - PyInt n = x"
proof (induction n x rule: shift_exact.induct)
  case (1 n a)
  then show ?case by (simp add: plus_pynum_def minus_pynum_def)
next
  case (2 n q)
  then show ?case
    by (simp add: plus_pynum_def minus_pynum_def float_of_int_binary64 float_round_trip)
qed simp_all

lemma floor_log2_bounds:
  assumes "0 < q"
  shows "2 powi floor_log2 q \<le> q \<and> q < 2 powi (floor_log2 q + 1)"
proof (cases "1 \<le> q")
  case True
  define m where "m = \<lfloor>q\<rfloor>"
  from True have m: "0 < m" by (simp add: m_def)
  have fl: "floor_log2 q = bitlen m - 1" using True by (simp add: floor_log2_def m_def)
  from bitlen_bounds [OF m] have b: "2 ^ nat (bitlen m - 1) \<le> m" "m < 2 ^ nat (bitlen m)"
    by simp_all
  from m have bl: "1 \<le> bitlen m" by (simp add: bitlen_alt_def)
  have "(2::rat) powi (bitlen m - 1) = of_int (2 ^ nat (bitlen m - 1))"
    using bl by (simp add: power_int_def)
  also have "\<dots> \<le> of_int m" using b(1) by (simp only: of_int_le_iff)
  also have "\<dots> \<le> q" by (simp add: m_def)
  finally have lo: "2 powi (bitlen m - 1) \<le> q" .
  have "m + 1 \<le> 2 ^ nat (bitlen m)" using b(2) by simp
  then have "of_int (m + 1) \<le> (of_int (2 ^ nat (bitlen m)) :: rat)"
    by (simp only: of_int_le_iff)
  moreover have "q < of_int (m + 1)" using floor_correct [of q] by (simp add: m_def)
  ultimately have "q < of_int (2 ^ nat (bitlen m))" by simp
  also have "\<dots> = 2 powi (bitlen m)" using bl by (simp add: power_int_def)
  finally have hi: "q < 2 powi (bitlen m - 1 + 1)" by simp
  from lo hi fl show ?thesis by simp
next
  case False
  define m where "m = \<lceil>1 / q\<rceil> - 1"
  from False assms have "1 < 1 / q" by simp
  then have "1 < \<lceil>1 / q\<rceil>" by (simp add: less_ceiling_iff)
  then have m: "0 < m" by (simp add: m_def)
  have fl: "floor_log2 q = - bitlen m" using False by (simp add: floor_log2_def m_def)
  from bitlen_bounds [OF m] have b: "2 ^ nat (bitlen m - 1) \<le> m" "m < 2 ^ nat (bitlen m)"
    by simp_all
  from m have bl: "1 \<le> bitlen m" by (simp add: bitlen_alt_def)
  have m1: "of_int m < 1 / q" "1 / q \<le> of_int (m + 1)"
    using ceiling_correct [of "1 / q"] by (simp_all add: m_def)
  have "m + 1 \<le> 2 ^ nat (bitlen m)" using b(2) by simp
  then have "of_int (m + 1) \<le> (of_int (2 ^ nat (bitlen m)) :: rat)"
    by (simp only: of_int_le_iff)
  with m1(2) have "1 / q \<le> of_int (2 ^ nat (bitlen m))" by simp
  also have "\<dots> = 2 powi (bitlen m)" using bl by (simp add: power_int_def)
  finally have "1 / q \<le> 2 powi (bitlen m)" .
  then have lo: "2 powi (- bitlen m) \<le> q"
    using assms by (simp add: power_int_minus field_simps)
  have "(2::rat) powi (bitlen m - 1) = of_int (2 ^ nat (bitlen m - 1))"
    using bl by (simp add: power_int_def)
  also have "\<dots> \<le> of_int m" using b(1) by (simp only: of_int_le_iff)
  also have "\<dots> < 1 / q" by (rule m1(1))
  finally have "2 powi (bitlen m - 1) < 1 / q" .
  then have "q < 1 / 2 powi (bitlen m - 1)"
    using assms by (simp add: field_simps)
  also have "\<dots> = 2 powi (- (bitlen m - 1))"
    by (simp only: power_int_minus inverse_eq_divide)
  also have "\<dots> = 2 powi (- bitlen m + 1)" by simp
  finally have hi: "q < 2 powi (- bitlen m + 1)" .
  from lo hi fl show ?thesis by simp
qed

lemma binary64_dyadic:
  assumes m: "\<bar>m\<bar> < 2 ^ 53" and k: "- 1074 \<le> k"
    and b: "\<bar>of_int m * 2 powi k\<bar> < (2::rat) ^ 1024"
  shows "is_binary64 (of_int m * 2 powi k)"
proof (cases "m = 0")
  case True
  then show ?thesis by (simp add: is_binary64_def)
next
  case False
  define q :: rat where "q = of_int m * 2 powi k"
  define e where "e = ulp_exponent q"
  have q0: "0 < \<bar>q\<bar>" using False by (simp add: q_def)
  have aq: "\<bar>q\<bar> = of_int \<bar>m\<bar> * 2 powi k" by (simp add: q_def abs_mult)
  from m have "(of_int \<bar>m\<bar> :: rat) < of_int (2 ^ 53)" by (simp only: of_int_less_iff)
  then have "(of_int \<bar>m\<bar> :: rat) < 2 powi 53" by simp
  then have "\<bar>q\<bar> < 2 powi 53 * 2 powi k" by (simp add: aq)
  also have "\<dots> = 2 powi (53 + k)" by (simp add: power_int_add)
  finally have up: "\<bar>q\<bar> < 2 powi (53 + k)" .
  from floor_log2_bounds [OF q0] have "2 powi floor_log2 \<bar>q\<bar> \<le> \<bar>q\<bar>" by simp
  with up have lt: "(2::rat) powi floor_log2 \<bar>q\<bar> < 2 powi (53 + k)" by simp
  have "floor_log2 \<bar>q\<bar> < 53 + k"
  proof (rule ccontr)
    assume "\<not> floor_log2 \<bar>q\<bar> < 53 + k"
    then have "53 + k \<le> floor_log2 \<bar>q\<bar>" by simp
    then have "(2::rat) powi (53 + k) \<le> 2 powi floor_log2 \<bar>q\<bar>"
      by (rule power_int_increasing) simp
    with lt show False by simp
  qed
  with k have ek: "e \<le> k" by (simp add: e_def ulp_exponent_def)
  have "q / 2 powi e = of_int m * 2 powi (k - e)"
    by (simp add: q_def power_int_diff)
  also have "\<dots> = of_int (m * 2 ^ nat (k - e))"
    using ek by (simp add: power_int_def)
  finally have "q / 2 powi e = of_int (m * 2 ^ nat (k - e))" .
  then have "of_int \<lfloor>q / 2 powi e\<rfloor> = q / 2 powi e" by simp
  with b show ?thesis unfolding is_binary64_def q_def e_def by simp
qed

lemma binary64_of_int: "\<bar>n\<bar> < 2 ^ 53 \<Longrightarrow> is_binary64 (of_int n)"
proof -
  assume n: "\<bar>n\<bar> < 2 ^ 53"
  then have "(of_int \<bar>n\<bar> :: rat) < of_int (2 ^ 53)" by (simp only: of_int_less_iff)
  then have "\<bar>of_int n :: rat\<bar> < 2 ^ 53" by simp
  also have "\<dots> < 2 ^ 1024" by simp
  finally have "\<bar>of_int n * 2 powi 0\<bar> < (2::rat) ^ 1024" by simp
  from binary64_dyadic [OF n _ this] show ?thesis by simp
qed

lemma binary64_half: "\<bar>m\<bar> < 2 ^ 53 \<Longrightarrow> is_binary64 (of_int m / 2)"
proof -
  assume m: "\<bar>m\<bar> < 2 ^ 53"
  then have "(of_int \<bar>m\<bar> :: rat) < of_int (2 ^ 53)" by (simp only: of_int_less_iff)
  then have "\<bar>of_int m :: rat\<bar> < 2 ^ 53" by simp
  also have "\<dots> < 2 ^ 1024" by simp
  finally have "\<bar>of_int m * 2 powi (- 1)\<bar> < (2::rat) ^ 1024"
    by (simp add: power_int_minus abs_mult)
  from binary64_dyadic [OF m _ this] show ?thesis by (simp add: power_int_minus field_simps)
qed

lemma binary64_values:
  "is_binary64 0" "is_binary64 1" "is_binary64 (- 1)" "is_binary64 2" "is_binary64 3"
  "is_binary64 (1/2)" "is_binary64 (- 1/2)" "is_binary64 (- (1/2))" "is_binary64 (3/2)" "is_binary64 (7/2)"
  "is_binary64 (- (3/2))"
  using binary64_of_int [of 0] binary64_of_int [of 1] binary64_of_int [of "- 1"]
    binary64_of_int [of 2] binary64_of_int [of 3]
    binary64_half [of 1] binary64_half [of "- 1"] binary64_half [of 3] binary64_half [of 7]
    binary64_half [of "- 3"]
  by simp_all

lemma binary64_2_53: "is_binary64 9007199254740992"
  using binary64_dyadic [of 1 53] by simp

lemma round64_half_2_53: "round64 (18014398509481985 / 2) = 9007199254740992"
  by code_simp

lemma to_float64_half_2_53: "to_float64 (18014398509481985 / 2) = Finite 9007199254740992"
  by (simp add: to_float64_def Let_def round64_half_2_53)

lemma float_of_int_2_53: "float_of_int 9007199254740992 = Some (Finite 9007199254740992)"
  using float_of_int_binary64 [of 9007199254740992] binary64_2_53 by simp

lemma pynum_half_2_53:
  "PyFloat (Finite (1/2)) + PyInt (2 ^ 53) = PyFloat (Finite (2 ^ 53))"
  "PyFloat (Finite (2 ^ 53)) - PyInt (2 ^ 53) = PyFloat (Finite 0)"
  by (simp_all add: plus_pynum_def minus_pynum_def float_of_int_2_53 to_float64_half_2_53
      float_sub_Finite to_float64_binary64 binary64_values)

subsection \<open>The loop, the factory and the shifts in closed form\<close>

lemmas pynum_eval = plus_pynum_def minus_pynum_def float_sub_Finite to_float64_binary64
  float_of_int_binary64 binary64_values

lemma validated_loop_eq:
  "validated_loop fn validator xs acc =
     (if \<forall>c\<in>set xs. validator (fn c) then Some (acc @ map fn xs) else None)"
  by (induction xs arbitrary: acc) (simp_all add: Let_def)

lemma validated_apply_eq:
  "validated_apply fn is_rotation validator self =
     (if \<forall>c\<in>set (blocks_pos self). validator (fn c)
      then (True, self\<lparr>center_rot := (if is_rotation then center_rot self
                                         else fn (center_rot self)),
                       blocks_pos := map fn (blocks_pos self)\<rparr>)
      else (False, self))"
  by (simp add: validated_apply_def validated_loop_eq Let_def)

lemma factory_Member:
  "pytromino_factory palette (Member t) =
     Inr \<lparr>blocks_pos = canonical_offsets t, color = palette (shape_color t), type = t,
          center_rot = canonical_center t, placed = False\<rparr>"
  by (cases t) (simp_all add: pytromino_factory_def Pytromino_init_def)

lemma factory_NonMember:
  "pytromino_factory palette (NonMember s) =
     Inl (ValueError (''Unknown block type: \"'' @ s @ ''\"''))"
  by (simp add: pytromino_factory_def)

lemma factory_doctest_I:
  "pytromino_factory palette (Member Types_I) = Inr (doctest_I\<lparr>color := palette CYAN\<rparr>)"
  by (simp add: factory_Member doctest_I_def)

lemma shift_round_trip:
  "shift_exact n (fst c) \<Longrightarrow> shift_left_fn (PyInt n) (shift_right_fn (PyInt n) c) = c"
  by (simp add: shift_left_fn_def shift_right_fn_def shift_exact_round_trip)

lemma shift_exact_half:
  assumes "\<bar>n\<bar> < 2 ^ 52"
  shows "shift_exact n (PyFloat (Finite (1/2)))"
proof -
  from assms have 1: "\<bar>n\<bar> < 2 ^ 53" by simp
  from assms have 2: "\<bar>2 * n + 1\<bar> < 2 ^ 53" by simp
  have e: "(1/2 :: rat) + of_int n = of_int (2 * n + 1) / 2" by (simp add: field_simps)
  have "is_binary64 (1/2 + of_int n)" unfolding e by (rule binary64_half [OF 2])
  with binary64_of_int [OF 1] show ?thesis by (simp add: binary64_values)
qed

lemma factory_shift_exact:
  assumes "\<bar>n\<bar> < 2 ^ 52" and "pytromino_factory palette pytromino_type = Inr self"
  shows "\<forall>c\<in>set (center_rot self # blocks_pos self). shift_exact n (fst c)"
proof (cases pytromino_type)
  case (Member t)
  with assms(2) have "self = \<lparr>blocks_pos = canonical_offsets t, color = palette (shape_color t),
      type = t, center_rot = canonical_center t, placed = False\<rparr>"
    by (simp add: factory_Member)
  then show ?thesis using shift_exact_half [OF assms(1)] by (cases t) simp_all
next
  case (NonMember s)
  with assms(2) show ?thesis by (simp add: factory_NonMember)
qed

lemma length_canonical_offsets: "length (canonical_offsets t) = 4"
  by (cases t) simp_all

lemma length_validated_apply:
  "length (blocks_pos (snd (validated_apply fn is_rotation validator self))) =
   length (blocks_pos self)"
  by (simp add: validated_apply_eq)

lemma length_place_at:
  "length (blocks_pos (place_at coordinate self)) = length (blocks_pos self)"
  by (simp add: place_at_def length_validated_apply)

subsection \<open>The examples of the docstrings\<close>

lemma doctest_rotate_block_90_cw:
  "rotate_block_90_cw doctest_T (PyInt (- 1), PyInt 0) = (PyInt 0, PyInt (- 1))"
  "rotate_block_90_cw doctest_T (PyInt 0, PyInt 0) = (PyInt 0, PyInt 0)"
  "rotate_block_90_cw doctest_T (PyInt 1, PyInt 0) = (PyInt 0, PyInt 1)"
  by (simp_all add: rotate_block_90_cw_def doctest_T_def plus_pynum_def minus_pynum_def)

lemma doctest_filter_blocks_pos:
  "pytromino_factory palette (Member Types_S) = Inr S \<Longrightarrow>
   filter_blocks_pos (\<lambda>pos. fst pos = PyInt 0) S = [(PyInt 0, PyInt 0), (PyInt 0, PyInt (- 1))]"
  by (auto simp: factory_Member filter_blocks_pos_def)

lemma doctest_shift_fn:
  "shift_down_fn (PyInt 1) (PyInt 0, PyInt 0) = (PyInt 0, PyInt 1)"
  "shift_down_fn (PyInt 3) (PyInt 0, PyInt 0) = (PyInt 0, PyInt 3)"
  "shift_left_fn (PyInt 1) (PyInt 0, PyInt 0) = (PyInt (- 1), PyInt 0)"
  "shift_left_fn (PyInt 3) (PyInt 0, PyInt 0) = (PyInt (- 3), PyInt 0)"
  "shift_right_fn (PyInt 1) (PyInt 0, PyInt 0) = (PyInt 1, PyInt 0)"
  "shift_right_fn (PyInt 3) (PyInt 0, PyInt 0) = (PyInt 3, PyInt 0)"
  by (simp_all add: shift_down_fn_def shift_left_fn_def shift_right_fn_def plus_pynum_def
      minus_pynum_def)

lemma doctest_validated_apply_rejected:
  "validated_apply (shift_right_fn (PyInt 1)) False (\<lambda>pos. py_positive (fst pos)) doctest_T =
     (False, doctest_T)"
  by (simp add: validated_apply_def shift_right_fn_def doctest_T_def plus_pynum_def)

lemma doctest_validated_apply_shift:
  "validated_apply (shift_right_fn (PyInt 1)) False (\<lambda>pos. True) doctest_T =
     (True, \<lparr>blocks_pos = [(PyInt 1, PyInt 0), (PyInt 1, PyInt (- 1)), (PyInt 0, PyInt 0),
                            (PyInt 2, PyInt 0)],
             color = (146, 44, 140), type = Types_T, center_rot = (PyInt 1, PyInt 0),
             placed = False\<rparr>)"
  by (simp add: validated_apply_def shift_right_fn_def doctest_T_def plus_pynum_def)

text \<open>The rotated blocks are floats, as the docstring prints them.\<close>

lemma doctest_validated_apply_rotation:
  "validated_apply (rotate_block_90_cw doctest_I) True (\<lambda>pos. True) doctest_I =
     (True, \<lparr>blocks_pos = [(PyFloat (Finite 1), PyFloat (Finite 0)),
                            (PyFloat (Finite 1), PyFloat (Finite (- 1))),
                            (PyFloat (Finite 1), PyFloat (Finite 1)),
                            (PyFloat (Finite 1), PyFloat (Finite 2))],
             color = (43, 172, 226), type = Types_I,
             center_rot = (PyFloat (Finite (1/2)), PyFloat (Finite (1/2))), placed = False\<rparr>)"
  by (simp add: validated_apply_def rotate_block_90_cw_def doctest_I_def pynum_eval)

lemma doctest_place_at:
  "pytromino_factory palette (Member Types_S) = Inr S \<Longrightarrow>
   \<not> is_placed S \<and> is_placed (place_at (PyInt 2, PyInt 2) S) \<and>
   get_blocks_pos (place_at (PyInt 2, PyInt 2) S) =
     [(PyInt 2, PyInt 2), (PyInt 1, PyInt 2), (PyInt 2, PyInt 1), (PyInt 3, PyInt 1)] \<and>
   center_rot (place_at (PyInt 2, PyInt 2) S) = (PyInt 2, PyInt 2) \<and>
   get_blocks_pos (place_at (PyInt 1, PyInt 1) (place_at (PyInt 2, PyInt 2) S)) =
     [(PyInt 2, PyInt 2), (PyInt 1, PyInt 2), (PyInt 2, PyInt 1), (PyInt 3, PyInt 1)]"
  by (auto simp: factory_Member place_at_def validated_apply_eq is_placed_def get_blocks_pos_def
      plus_pynum_def)

lemma doctest_holder:
  "is_open (Holder_init :: int holder)"
  "get_item (snd (store (Some (1::int)) Holder_init)) = Some 1"
  "get_item (close_holder (snd (store (Some (1::int)) Holder_init))) = Some 1"
  "\<not> is_open (close_holder (snd (store (Some (1::int)) Holder_init)))"
  "is_open (open_holder (close_holder (snd (store (Some (1::int)) Holder_init))))"
  by (simp_all add: is_open_def get_item_def store_def Holder_init_def close_holder_def
      open_holder_def)

section \<open>The claims\<close>

text \<open>
  C1. For every piece, transform function \<open>fn\<close>, flag and validator: \<^verbatim>\<open>validated_apply\<close>
  returns \<open>True\<close> with the blocks replaced by the transformed blocks, in the original order,
  if and only if every transformed block coordinate passes the validator; and if some
  transformed block coordinate fails the validator, it returns \<open>False\<close> and the blocks and
  the rotation center (indeed the whole piece) are as before the call.
\<close>

theorem validated_apply_all_or_nothing:
  "((fst (validated_apply fn is_rotation validator self) \<and>
     blocks_pos (snd (validated_apply fn is_rotation validator self)) = map fn (blocks_pos self))
    \<longleftrightarrow> (\<forall>c\<in>set (blocks_pos self). validator (fn c))) \<and>
   ((\<exists>c\<in>set (blocks_pos self). \<not> validator (fn c)) \<longrightarrow>
      \<not> fst (validated_apply fn is_rotation validator self) \<and>
      blocks_pos (snd (validated_apply fn is_rotation validator self)) = blocks_pos self \<and>
      center_rot (snd (validated_apply fn is_rotation validator self)) = center_rot self \<and>
      snd (validated_apply fn is_rotation validator self) = self)"
  by (simp add: validated_apply_eq)

text \<open>
  The docstring's piece \<^verbatim>\<open>T\<close> shifted right by one: accepted by the validator that is
  always true, rejected by the validator \<^verbatim>\<open>pos[0] > 0\<close>.
\<close>

theorem validated_apply_all_or_nothing_witness:
  "list_all (\<lambda>c. (\<lambda>pos. True) (shift_right_fn (PyInt 1) c)) (blocks_pos doctest_T) \<and>
   fst (validated_apply (shift_right_fn (PyInt 1)) False (\<lambda>pos. True) doctest_T) \<and>
   blocks_pos (snd (validated_apply (shift_right_fn (PyInt 1)) False (\<lambda>pos. True) doctest_T)) =
     [(PyInt 1, PyInt 0), (PyInt 1, PyInt (- 1)), (PyInt 0, PyInt 0), (PyInt 2, PyInt 0)] \<and>
   (\<exists>c\<in>set (blocks_pos doctest_T). \<not> py_positive (fst (shift_right_fn (PyInt 1) c))) \<and>
   \<not> fst (validated_apply (shift_right_fn (PyInt 1)) False (\<lambda>pos. py_positive (fst pos))
           doctest_T) \<and>
   snd (validated_apply (shift_right_fn (PyInt 1)) False (\<lambda>pos. py_positive (fst pos))
        doctest_T) = doctest_T"
proof -
  have ok: "\<forall>c\<in>set (blocks_pos doctest_T). (\<lambda>pos. True) (shift_right_fn (PyInt 1) c)"
    by simp
  have bad: "\<exists>c\<in>set (blocks_pos doctest_T). \<not> py_positive (fst (shift_right_fn (PyInt 1) c))"
    by (simp add: doctest_T_def shift_right_fn_def plus_pynum_def)
  have m: "map (shift_right_fn (PyInt 1)) (blocks_pos doctest_T) =
      [(PyInt 1, PyInt 0), (PyInt 1, PyInt (- 1)), (PyInt 0, PyInt 0), (PyInt 2, PyInt 0)]"
    by (simp add: doctest_T_def shift_right_fn_def plus_pynum_def)
  from ok validated_apply_all_or_nothing
         [of "shift_right_fn (PyInt 1)" False "\<lambda>pos. True" doctest_T]
  have 1: "fst (validated_apply (shift_right_fn (PyInt 1)) False (\<lambda>pos. True) doctest_T) \<and>
     blocks_pos (snd (validated_apply (shift_right_fn (PyInt 1)) False (\<lambda>pos. True) doctest_T)) =
       map (shift_right_fn (PyInt 1)) (blocks_pos doctest_T)"
    by blast
  from bad validated_apply_all_or_nothing
         [of "shift_right_fn (PyInt 1)" False "\<lambda>pos. py_positive (fst pos)" doctest_T]
  have 2: "\<not> fst (validated_apply (shift_right_fn (PyInt 1)) False
                   (\<lambda>pos. py_positive (fst pos)) doctest_T) \<and>
     snd (validated_apply (shift_right_fn (PyInt 1)) False
            (\<lambda>pos. py_positive (fst pos)) doctest_T) = doctest_T"
    by blast
  from ok bad 1 2 m show ?thesis by (simp add: list_all_iff)
qed

text \<open>
  C2. Every piece that the factory constructs, and every state reached from it by any
  sequence of \<^verbatim>\<open>validated_apply\<close> and \<^verbatim>\<open>place_at\<close> calls (with arbitrary transform
  functions and validators), has exactly 4 blocks.
\<close>

theorem reachable_four_blocks: "reachable palette self \<Longrightarrow> length (blocks_pos self) = 4"
proof (induction rule: reachable.induct)
  case (constructed pytromino_type self)
  then show ?case
    by (cases pytromino_type)
       (auto simp: factory_Member factory_NonMember length_canonical_offsets)
next
  case (applied self fn is_rotation validator)
  then show ?case by (simp add: length_validated_apply)
next
  case (placed_at self coordinate)
  then show ?case by (simp add: length_place_at)
qed

theorem reachable_four_blocks_witness:
  "reachable (\<lambda>c. (146, 44, 140))
     (place_at (PyInt 2, PyInt 2)
        (snd (validated_apply (shift_right_fn (PyInt 1)) False
                (\<lambda>pos. py_positive (fst pos)) doctest_T))) \<and>
   length (blocks_pos
     (place_at (PyInt 2, PyInt 2)
        (snd (validated_apply (shift_right_fn (PyInt 1)) False
                (\<lambda>pos. py_positive (fst pos)) doctest_T)))) = 4"
proof -
  have "pytromino_factory (\<lambda>c. (146, 44, 140)) (Member Types_T) = Inr doctest_T"
    by (simp add: pytromino_factory_def Pytromino_init_def doctest_T_def)
  then have "reachable (\<lambda>c. (146, 44, 140)) doctest_T"
    by (rule reachable.constructed)
  then have r: "reachable (\<lambda>c. (146, 44, 140))
     (place_at (PyInt 2, PyInt 2)
        (snd (validated_apply (shift_right_fn (PyInt 1)) False
                (\<lambda>pos. py_positive (fst pos)) doctest_T)))"
    by (intro reachable.placed_at reachable.applied)
  from r reachable_four_blocks [OF r] show ?thesis by simp
qed

text \<open>
  C3. For a piece that is not yet placed, \<^verbatim>\<open>place_at((a, b))\<close> translates every block and
  the rotation center by \<open>(a, b)\<close> and sets \<open>placed\<close>; for a piece that is already placed,
  \<^verbatim>\<open>place_at\<close> changes nothing. Hence a second \<^verbatim>\<open>place_at\<close>, with any coordinate, leaves
  the piece where the first one put it.
\<close>

theorem place_at_once:
  "(\<not> placed self \<longrightarrow>
      place_at (a, b) self =
        self\<lparr>blocks_pos := map (\<lambda>pos. (fst pos + a, snd pos + b)) (blocks_pos self),
             center_rot := (fst (center_rot self) + a, snd (center_rot self) + b),
             placed := True\<rparr>) \<and>
   (placed self \<longrightarrow> place_at (a, b) self = self) \<and>
   place_at (c, d) (place_at (a, b) self) = place_at (a, b) self"
  by (simp add: place_at_def validated_apply_eq)

theorem place_at_once_witness:
  "\<not> placed doctest_T \<and>
   place_at (PyInt 2, PyInt 2) doctest_T =
     \<lparr>blocks_pos = [(PyInt 2, PyInt 2), (PyInt 2, PyInt 1), (PyInt 1, PyInt 2),
                    (PyInt 3, PyInt 2)],
      color = (146, 44, 140), type = Types_T, center_rot = (PyInt 2, PyInt 2),
      placed = True\<rparr> \<and>
   placed (place_at (PyInt 2, PyInt 2) doctest_T) \<and>
   place_at (PyInt 1, PyInt 1) (place_at (PyInt 2, PyInt 2) doctest_T) =
     place_at (PyInt 2, PyInt 2) doctest_T"
proof -
  have np: "\<not> placed doctest_T" by (simp add: doctest_T_def)
  from np place_at_once [of doctest_T "PyInt 2" "PyInt 2" "PyInt 1" "PyInt 1"]
  have 1: "place_at (PyInt 2, PyInt 2) doctest_T =
     doctest_T\<lparr>blocks_pos :=
         map (\<lambda>pos. (fst pos + PyInt 2, snd pos + PyInt 2)) (blocks_pos doctest_T),
       center_rot := (fst (center_rot doctest_T) + PyInt 2, snd (center_rot doctest_T) + PyInt 2),
       placed := True\<rparr>"
    by blast
  then have p: "placed (place_at (PyInt 2, PyInt 2) doctest_T)" by simp
  from p place_at_once [of "place_at (PyInt 2, PyInt 2) doctest_T" "PyInt 1" "PyInt 1"
      "PyInt 0" "PyInt 0"]
  have 2: "place_at (PyInt 1, PyInt 1) (place_at (PyInt 2, PyInt 2) doctest_T) =
      place_at (PyInt 2, PyInt 2) doctest_T"
    by blast
  from 1 have 3: "place_at (PyInt 2, PyInt 2) doctest_T =
     \<lparr>blocks_pos = [(PyInt 2, PyInt 2), (PyInt 2, PyInt 1), (PyInt 1, PyInt 2),
                    (PyInt 3, PyInt 2)],
      color = (146, 44, 140), type = Types_T, center_rot = (PyInt 2, PyInt 2),
      placed = True\<rparr>"
    by (simp add: doctest_T_def plus_pynum_def)
  from np p 2 3 show ?thesis by simp
qed

text \<open>
  C4. For every shape tag of the enumeration the factory returns a new, unplaced piece of
  that type with the block offsets and the rotation center of the specification's table
  (center \<open>(0.5, 0.5)\<close> for I, \<open>(0.5, -0.5)\<close> for O, \<open>(0, 0)\<close> for the others; offsets
  \<open>[(0,0),(0,-1),(-1,0),(1,0)]\<close> for T) and with the color of the shape; for an argument
  outside the enumeration it raises \<^verbatim>\<open>ValueError\<close>.
\<close>

theorem factory_canonical_table:
  "pytromino_factory palette (Member t) =
     Inr \<lparr>blocks_pos = canonical_offsets t, color = palette (shape_color t), type = t,
          center_rot = canonical_center t, placed = False\<rparr> \<and>
   pytromino_factory palette (Member Types_T) =
     Inr \<lparr>blocks_pos = [(PyInt 0, PyInt 0), (PyInt 0, PyInt (- 1)), (PyInt (- 1), PyInt 0),
                        (PyInt 1, PyInt 0)],
          color = palette PURPLE, type = Types_T, center_rot = (PyInt 0, PyInt 0),
          placed = False\<rparr> \<and>
   pytromino_factory palette (NonMember s) =
     Inl (ValueError (''Unknown block type: \"'' @ s @ ''\"''))"
  by (simp add: factory_Member factory_NonMember)

text \<open>
  C5. For a piece with rotation center \<open>c = (cx, cy)\<close> and a point \<open>p = (px, py)\<close>,
  \<^verbatim>\<open>rotate_block_90_cw(p)\<close> is \<open>(cy - py + cx, px - cx + cy)\<close>, in the arithmetic of the
  coordinates (Python's numbers, the rationals), so for half-integer centers too.
\<close>

theorem rotate_block_90_cw_formula:
  "rotate_block_90_cw (self\<lparr>center_rot := (cx, cy)\<rparr>) (px, py) = (cy - py + cx, px - cx + cy)"
  by (simp add: rotate_block_90_cw_def)

text \<open>
  C6. In exact rational arithmetic, \<^verbatim>\<open>rotate_block_90_cw\<close> maps the rotation center of
  the piece to itself, and four rotations in succession return every point to where it
  was.
\<close>

theorem rotate_block_90_cw_center_and_four:
  "rotate_block_90_cw self (center_rot self) = center_rot (self :: rat pytromino) \<and>
   rotate_block_90_cw self (rotate_block_90_cw self
     (rotate_block_90_cw self (rotate_block_90_cw self p))) = p"
  by (simp add: rotate_block_90_cw_def)

text \<open>
  C7. After a successful \<^verbatim>\<open>validated_apply\<close>, the rotation center is the one before the
  call when \<^verbatim>\<open>is_rotation\<close> is true, and the transform function applied to the one before
  the call when \<^verbatim>\<open>is_rotation\<close> is false.
\<close>

theorem validated_apply_center:
  "fst (validated_apply fn is_rotation validator self) \<Longrightarrow>
   center_rot (snd (validated_apply fn is_rotation validator self)) =
     (if is_rotation then center_rot self else fn (center_rot self))"
  by (simp add: validated_apply_eq split: if_splits)

theorem validated_apply_center_witness:
  "fst (validated_apply (rotate_block_90_cw doctest_I) True (\<lambda>pos. True) doctest_I) \<and>
   center_rot (snd (validated_apply (rotate_block_90_cw doctest_I) True (\<lambda>pos. True) doctest_I)) =
     (PyFloat (Finite (1/2)), PyFloat (Finite (1/2))) \<and>
   fst (validated_apply (shift_right_fn (PyInt 1)) False (\<lambda>pos. True) doctest_T) \<and>
   center_rot (snd (validated_apply (shift_right_fn (PyInt 1)) False (\<lambda>pos. True) doctest_T)) =
     (PyInt 1, PyInt 0)"
proof -
  have a: "fst (validated_apply (rotate_block_90_cw doctest_I) True (\<lambda>pos. True) doctest_I)"
    by (simp add: validated_apply_eq)
  have b: "fst (validated_apply (shift_right_fn (PyInt 1)) False (\<lambda>pos. True) doctest_T)"
    by (simp add: validated_apply_eq)
  from validated_apply_center [OF a] validated_apply_center [OF b] a b
  show ?thesis by (simp add: doctest_I_def doctest_T_def shift_right_fn_def plus_pynum_def)
qed

text \<open>
  C8, as the code has it. With Python's numbers the claim fails: on the docstring's piece
  \<^verbatim>\<open>I\<close> (the factory's, but for the color) and \<open>n = 2\<^sup>5\<^sup>3\<close> the float \<open>0.5 + 2\<^sup>5\<^sup>3\<close> rounds to
  \<open>2\<^sup>5\<^sup>3\<close>, and the shift back leaves the center at \<open>(0.0, 0.5)\<close>.
\<close>

theorem shift_right_then_left_counterexample:
  "center_rot doctest_I = (PyFloat (Finite (1/2)), PyFloat (Finite (1/2))) \<and>
   center_rot (snd (validated_apply (shift_left_fn (PyInt (2 ^ 53))) False always_true
     (snd (validated_apply (shift_right_fn (PyInt (2 ^ 53))) False always_true doctest_I)))) =
     (PyFloat (Finite 0), PyFloat (Finite (1/2))) \<and>
   snd (validated_apply (shift_left_fn (PyInt (2 ^ 53))) False always_true
     (snd (validated_apply (shift_right_fn (PyInt (2 ^ 53))) False always_true doctest_I))) \<noteq>
     doctest_I"
proof -
  have c: "center_rot (snd (validated_apply (shift_left_fn (PyInt (2 ^ 53))) False always_true
     (snd (validated_apply (shift_right_fn (PyInt (2 ^ 53))) False always_true doctest_I)))) =
     (PyFloat (Finite 0), PyFloat (Finite (1/2)))"
    by (simp add: validated_apply_eq always_true_def shift_left_fn_def shift_right_fn_def
        doctest_I_def pynum_half_2_53 del: power_numeral)
  have d: "center_rot doctest_I = (PyFloat (Finite (1/2)), PyFloat (Finite (1/2)))"
    by (simp add: doctest_I_def)
  from c d have "center_rot (snd (validated_apply (shift_left_fn (PyInt (2 ^ 53))) False always_true
     (snd (validated_apply (shift_right_fn (PyInt (2 ^ 53))) False always_true doctest_I)))) \<noteq>
     center_rot doctest_I"
    by simp
  then have "snd (validated_apply (shift_left_fn (PyInt (2 ^ 53))) False always_true
     (snd (validated_apply (shift_right_fn (PyInt (2 ^ 53))) False always_true doctest_I))) \<noteq>
     doctest_I"
    by auto
  with c d show ?thesis by simp
qed

text \<open>
  C8, amended. \<^verbatim>\<open>validated_apply\<close> with \<^verbatim>\<open>shift_right_fn(n)\<close> and then with
  \<^verbatim>\<open>shift_left_fn(n)\<close> (both with \<^verbatim>\<open>is_rotation\<close> false and the validator that is always
  true) succeeds twice and returns the piece to its original blocks and rotation center,
  for every integer \<open>n\<close> and every piece whose x coordinates (of the blocks and of the
  center) are integers, or floats that the shift by \<open>n\<close> does not round. By
  \<open>factory_shift_exact\<close> these are, among others, the pieces that the factory builds, for
  \<open>\<bar>n\<bar> < 2\<^sup>5\<^sup>2\<close>.
\<close>

theorem shift_right_then_left_exact:
  "\<forall>c\<in>set (center_rot self # blocks_pos self). shift_exact n (fst c) \<Longrightarrow>
   fst (validated_apply (shift_right_fn (PyInt n)) False (\<lambda>pos. True) self) \<and>
   validated_apply (shift_left_fn (PyInt n)) False (\<lambda>pos. True)
     (snd (validated_apply (shift_right_fn (PyInt n)) False (\<lambda>pos. True) self)) = (True, self)"
proof -
  assume a: "\<forall>c\<in>set (center_rot self # blocks_pos self). shift_exact n (fst c)"
  then have c: "shift_left_fn (PyInt n) (shift_right_fn (PyInt n) (center_rot self)) =
      center_rot self"
    by (simp add: shift_round_trip)
  from a have "map (\<lambda>c. shift_left_fn (PyInt n) (shift_right_fn (PyInt n) c)) (blocks_pos self) =
      blocks_pos self"
    by (intro map_idI) (simp add: shift_round_trip)
  with c show ?thesis by (simp add: validated_apply_eq o_def)
qed

theorem shift_right_then_left_exact_witness:
  "list_all (\<lambda>c. shift_exact 3 (fst c)) (center_rot doctest_I # blocks_pos doctest_I) \<and>
   validated_apply (shift_right_fn (PyInt 3)) False (\<lambda>pos. True) doctest_I =
     (True, doctest_I\<lparr>center_rot := (PyFloat (Finite (7/2)), PyFloat (Finite (1/2))),
        blocks_pos := [(PyInt 3, PyInt 0), (PyInt 2, PyInt 0), (PyInt 4, PyInt 0),
                       (PyInt 5, PyInt 0)]\<rparr>) \<and>
   validated_apply (shift_left_fn (PyInt 3)) False (\<lambda>pos. True)
     (snd (validated_apply (shift_right_fn (PyInt 3)) False (\<lambda>pos. True) doctest_I)) =
     (True, doctest_I)"
proof -
  have h: "\<forall>c\<in>set (center_rot doctest_I # blocks_pos doctest_I). shift_exact 3 (fst c)"
    by (simp add: doctest_I_def binary64_values)
  have s: "validated_apply (shift_right_fn (PyInt 3)) False (\<lambda>pos. True) doctest_I =
     (True, doctest_I\<lparr>center_rot := (PyFloat (Finite (7/2)), PyFloat (Finite (1/2))),
        blocks_pos := [(PyInt 3, PyInt 0), (PyInt 2, PyInt 0), (PyInt 4, PyInt 0),
                       (PyInt 5, PyInt 0)]\<rparr>)"
    by (simp add: validated_apply_eq doctest_I_def shift_right_fn_def pynum_eval)
  from h s shift_right_then_left_exact [OF h] show ?thesis by (simp add: list_all_iff)
qed

text \<open>
  C9. \<^verbatim>\<open>store\<close> raises \<^verbatim>\<open>AssertionError\<close> when the holder is closed, and the holder is then
  as before; when the holder is open it overwrites the held item. \<^verbatim>\<open>get_item\<close> returns the
  held item (\<^verbatim>\<open>None\<close> for a new holder) whatever the gate's state, also after
  \<^verbatim>\<open>close\<close>.
\<close>

theorem holder_store_get_item:
  "(\<not> can_store self \<longrightarrow> store x self = (Some (AssertionError ''holder is closed''), self)) \<and>
   (can_store self \<longrightarrow> store x self = (None, self\<lparr>item := x\<rparr>)) \<and>
   get_item self = item self \<and>
   get_item (Holder_init :: 'a holder) = None \<and>
   get_item (close_holder self) = get_item self \<and>
   get_item (open_holder self) = get_item self \<and>
   get_item (snd (store x self)) = (if can_store self then x else get_item self)"
  by (simp add: store_def get_item_def Holder_init_def close_holder_def open_holder_def)

theorem holder_store_get_item_witness:
  "\<not> can_store (close_holder (snd (store (Some (1::int)) Holder_init))) \<and>
   store (Some 2) (close_holder (snd (store (Some (1::int)) Holder_init))) =
     (Some (AssertionError ''holder is closed''), \<lparr>item = Some 1, can_store = False\<rparr>) \<and>
   can_store (Holder_init :: int holder) \<and>
   store (Some (1::int)) Holder_init = (None, \<lparr>item = Some 1, can_store = True\<rparr>) \<and>
   get_item (close_holder (snd (store (Some (1::int)) Holder_init))) = Some 1"
proof -
  have s1: "snd (store (Some (1::int)) Holder_init) = \<lparr>item = Some 1, can_store = True\<rparr>"
    by (simp add: store_def Holder_init_def)
  have c: "\<not> can_store (close_holder (snd (store (Some (1::int)) Holder_init)))"
    by (simp add: close_holder_def)
  have o: "can_store (Holder_init :: int holder)"
    by (simp add: Holder_init_def)
  from c holder_store_get_item
         [of "close_holder (snd (store (Some (1::int)) Holder_init))" "Some 2"]
  have 1: "store (Some 2) (close_holder (snd (store (Some (1::int)) Holder_init))) =
     (Some (AssertionError ''holder is closed''),
      close_holder (snd (store (Some (1::int)) Holder_init)))"
    by blast
  from o holder_store_get_item [of "Holder_init :: int holder" "Some 1"]
  have 2: "store (Some (1::int)) Holder_init = (None, Holder_init\<lparr>item := Some 1\<rparr>)"
    by blast
  from holder_store_get_item [of "snd (store (Some (1::int)) Holder_init)" "Some 2"]
  have 3: "get_item (close_holder (snd (store (Some (1::int)) Holder_init))) =
     get_item (snd (store (Some (1::int)) Holder_init))"
    by blast
  from c o 1 2 3 s1 show ?thesis
    by (simp add: close_holder_def Holder_init_def get_item_def)
qed

text \<open>
  C10. The validator is applied to the transformed blocks only: when every transformed
  block passes, a call with \<^verbatim>\<open>is_rotation\<close> false succeeds and moves the rotation center
  to its transform, even though the validator rejects that coordinate.
\<close>

theorem validator_not_applied_to_center:
  "\<forall>c\<in>set (blocks_pos self). validator (fn c) \<Longrightarrow> \<not> validator (fn (center_rot self)) \<Longrightarrow>
   validated_apply fn False validator self =
     (True, self\<lparr>center_rot := fn (center_rot self), blocks_pos := map fn (blocks_pos self)\<rparr>)"
  by (simp add: validated_apply_eq)

text \<open>
  The docstring's piece \<^verbatim>\<open>I\<close> shifted right by one under a validator that accepts the row
  of the integer \<open>0\<close> only: the center moves to \<open>(1.5, 0.5)\<close>, which the validator rejects.
\<close>

theorem validator_not_applied_to_center_witness:
  "list_all (\<lambda>c. snd (shift_right_fn (PyInt 1) c) = PyInt 0) (blocks_pos doctest_I) \<and>
   \<not> snd (shift_right_fn (PyInt 1) (center_rot doctest_I)) = PyInt 0 \<and>
   validated_apply (shift_right_fn (PyInt 1)) False (\<lambda>pos. snd pos = PyInt 0) doctest_I =
     (True, \<lparr>blocks_pos = [(PyInt 1, PyInt 0), (PyInt 0, PyInt 0), (PyInt 2, PyInt 0),
                            (PyInt 3, PyInt 0)],
             color = (43, 172, 226), type = Types_I,
             center_rot = (PyFloat (Finite (3/2)), PyFloat (Finite (1/2))), placed = False\<rparr>)"
proof -
  have a: "\<forall>c\<in>set (blocks_pos doctest_I). snd (shift_right_fn (PyInt 1) c) = PyInt 0"
    by (simp add: doctest_I_def shift_right_fn_def)
  have b: "\<not> snd (shift_right_fn (PyInt 1) (center_rot doctest_I)) = PyInt 0"
    by (simp add: doctest_I_def shift_right_fn_def)
  from validator_not_applied_to_center
         [of doctest_I "\<lambda>pos. snd pos = PyInt 0" "shift_right_fn (PyInt 1)", OF a b] a b
  show ?thesis by (simp add: doctest_I_def shift_right_fn_def list_all_iff pynum_eval)
qed

end
